theory Spec2Isabelle
  imports Complex_Main "HOL-Library.Multiset" "HOL-Library.Log_Nat"
begin

section \<open>JavaScript numbers\<close>

text \<open>
  A JavaScript \<^verbatim>\<open>number\<close> is a finite value, one of the two infinities, or NaN.
  The arithmetic below follows IEEE 754 on the special values. The result of an operation
  on finite operands is the real result handed to a rounding function \<open>rd\<close>, which
  is a parameter of every operation. The arithmetic of the program is the one of
  \<open>binary64\<close> below, which rounds to the nearest double; a theorem stated for every
  \<open>rd\<close> holds for it. Signed zeros are not distinguished: a zero divisor counts as
  \<open>+0\<close>.
\<close>

datatype number = Fin real | PInf | NInf | NaN

type_synonym rounding = "real \<Rightarrow> number"

fun jsNeg :: "number \<Rightarrow> number" where
  "jsNeg (Fin a) = Fin (- a)"
| "jsNeg PInf = NInf"
| "jsNeg NInf = PInf"
| "jsNeg NaN = NaN"

fun jsAdd :: "rounding \<Rightarrow> number \<Rightarrow> number \<Rightarrow> number" where
  "jsAdd rd (Fin a) (Fin b) = rd (a + b)"
| "jsAdd rd NaN v = NaN"
| "jsAdd rd u NaN = NaN"
| "jsAdd rd PInf NInf = NaN"
| "jsAdd rd NInf PInf = NaN"
| "jsAdd rd PInf v = PInf"
| "jsAdd rd u PInf = PInf"
| "jsAdd rd NInf v = NInf"
| "jsAdd rd u NInf = NInf"

definition jsSub :: "rounding \<Rightarrow> number \<Rightarrow> number \<Rightarrow> number" where
  "jsSub rd u v = jsAdd rd u (jsNeg v)"

fun jsMul :: "rounding \<Rightarrow> number \<Rightarrow> number \<Rightarrow> number" where
  "jsMul rd (Fin a) (Fin b) = rd (a * b)"
| "jsMul rd NaN v = NaN"
| "jsMul rd u NaN = NaN"
| "jsMul rd (Fin a) v = (if a = 0 then NaN else if (0 < a) = (v = PInf) then PInf else NInf)"
| "jsMul rd u (Fin b) = (if b = 0 then NaN else if (0 < b) = (u = PInf) then PInf else NInf)"
| "jsMul rd u v = (if u = v then PInf else NInf)"

fun jsDiv :: "rounding \<Rightarrow> number \<Rightarrow> number \<Rightarrow> number" where
  "jsDiv rd (Fin a) (Fin b) =
     (if b = 0 then (if a = 0 then NaN else if 0 < a then PInf else NInf) else rd (a / b))"
| "jsDiv rd NaN v = NaN"
| "jsDiv rd u NaN = NaN"
| "jsDiv rd (Fin a) v = Fin 0"
| "jsDiv rd u (Fin b) = (if (0 \<le> b) = (u = PInf) then PInf else NInf)"
| "jsDiv rd u v = NaN"

fun jsSqrt :: "rounding \<Rightarrow> number \<Rightarrow> number" where
  "jsSqrt rd (Fin a) = (if a < 0 then NaN else rd (sqrt a))"
| "jsSqrt rd PInf = PInf"
| "jsSqrt rd NInf = NaN"
| "jsSqrt rd NaN = NaN"

text \<open>\<^verbatim>\<open>isNaN(v)\<close>, \<^verbatim>\<open>u === v\<close> and \<^verbatim>\<open>u !== v\<close> (NaN differs from everything, itself
  included) and the conversion of an array length to a number.\<close>

definition isNaN :: "number \<Rightarrow> bool" where
  "isNaN v = (v = NaN)"

fun strictEq :: "number \<Rightarrow> number \<Rightarrow> bool" where
  "strictEq NaN v = False"
| "strictEq u NaN = False"
| "strictEq u v = (u = v)"

definition strictNe :: "number \<Rightarrow> number \<Rightarrow> bool" where
  "strictNe u v = (\<not> strictEq u v)"

definition ofLength :: "nat \<Rightarrow> number" where
  "ofLength k = Fin (real k)"

fun isFinite :: "number \<Rightarrow> bool" where
  "isFinite (Fin a) = True"
| "isFinite v = False"

fun theReal :: "number \<Rightarrow> real" where
  "theReal (Fin a) = a"
| "theReal v = 0"

section \<open>Data points and \<^verbatim>\<open>Array.prototype.reduce\<close>\<close>

record DataPoint =
  pt_x :: number
  pt_y :: number

definition point :: "real \<Rightarrow> real \<Rightarrow> DataPoint" where
  "point a b = \<lparr>pt_x = Fin a, pt_y = Fin b\<rparr>"

definition finitePoint :: "DataPoint \<Rightarrow> bool" where
  "finitePoint p = (isFinite (pt_x p) \<and> isFinite (pt_y p))"

text \<open>\<^verbatim>\<open>arr.reduce(f, init)\<close> folds from the left, in index order.\<close>

definition reduce :: "('b \<Rightarrow> 'a \<Rightarrow> 'b) \<Rightarrow> 'b \<Rightarrow> 'a list \<Rightarrow> 'b" where
  "reduce f init arr = foldl f init arr"

text \<open>The five accumulations that the components repeat verbatim.\<close>

definition sumX :: "rounding \<Rightarrow> DataPoint list \<Rightarrow> number" where
  "sumX rd dat = reduce (\<lambda>acc p. jsAdd rd acc (pt_x p)) (Fin 0) dat"

definition sumY :: "rounding \<Rightarrow> DataPoint list \<Rightarrow> number" where
  "sumY rd dat = reduce (\<lambda>acc p. jsAdd rd acc (pt_y p)) (Fin 0) dat"

definition sumXY :: "rounding \<Rightarrow> DataPoint list \<Rightarrow> number" where
  "sumXY rd dat = reduce (\<lambda>acc p. jsAdd rd acc (jsMul rd (pt_x p) (pt_y p))) (Fin 0) dat"

definition sumXX :: "rounding \<Rightarrow> DataPoint list \<Rightarrow> number" where
  "sumXX rd dat = reduce (\<lambda>acc p. jsAdd rd acc (jsMul rd (pt_x p) (pt_x p))) (Fin 0) dat"

definition sumYY :: "rounding \<Rightarrow> DataPoint list \<Rightarrow> number" where
  "sumYY rd dat = reduce (\<lambda>acc p. jsAdd rd acc (jsMul rd (pt_y p) (pt_y p))) (Fin 0) dat"

section \<open>RegressionCalculations: \<^verbatim>\<open>calculateStats\<close>\<close>

text \<open>
  The value of \<^verbatim>\<open>regression.linear(points).r2\<close> comes from the npm package
  \<^verbatim>\<open>regression\<close>, which is not part of the repository: the number that the call
  returns for the data at hand is the parameter \<open>linear_r2\<close>. \<^verbatim>\<open>null\<close> is \<open>None\<close>.
\<close>

record Stats =
  st_sxx :: number
  st_scp :: number
  st_slope :: number
  st_intercept :: number
  st_n :: nat
  st_sumX :: number
  st_sumY :: number
  st_sumXY :: number
  st_meanX :: number
  st_meanY :: number
  st_r2 :: number

definition calculateStats ::
  "rounding \<Rightarrow> number \<Rightarrow> DataPoint list \<Rightarrow> Stats option" where
  "calculateStats rd linear_r2 dat =
     (if length dat < 2 then None
      else
        let n = ofLength (length dat);
            sX = sumX rd dat;
            sY = sumY rd dat;
            sXY = sumXY rd dat;
            sXX = sumXX rd dat;
            meanX = jsDiv rd sX n;
            meanY = jsDiv rd sY n;
            sxx = jsSub rd sXX (jsDiv rd (jsMul rd sX sX) n);
            scp = jsSub rd sXY (jsDiv rd (jsMul rd sX sY) n);
            slope = jsDiv rd scp sxx;
            intercept = jsSub rd meanY (jsMul rd slope meanX);
            r2 = linear_r2
        in Some \<lparr>st_sxx = sxx, st_scp = scp, st_slope = slope, st_intercept = intercept,
                 st_n = length dat, st_sumX = sX, st_sumY = sY, st_sumXY = sXY,
                 st_meanX = meanX, st_meanY = meanY, st_r2 = r2\<rparr>)"

section \<open>App: the data table\<close>

text \<open>
  Every row of the table body recomputes the sums from \<^verbatim>\<open>dataPoints\<close>; the table is
  rendered when \<^verbatim>\<open>dataPoints.length > 0\<close>. A row holds the numbers that the cells
  print.
\<close>

record Row =
  row_x :: number
  row_y :: number
  row_yPredicted :: number
  row_xDiff :: number
  row_yDiff :: number
  row_residual :: number
  row_xDiff2 :: number
  row_xyDiff :: number
  row_residual2 :: number
  row_yDiff2 :: number

definition tableRow :: "rounding \<Rightarrow> DataPoint list \<Rightarrow> DataPoint \<Rightarrow> Row" where
  "tableRow rd dataPoints p =
     (let meanX = jsDiv rd (sumX rd dataPoints) (ofLength (length dataPoints));
          meanY = jsDiv rd (sumY rd dataPoints) (ofLength (length dataPoints));
          xDiff = jsSub rd (pt_x p) meanX;
          yDiff = jsSub rd (pt_y p) meanY;
          n = ofLength (length dataPoints);
          sXY = sumXY rd dataPoints;
          sXX = sumXX rd dataPoints;
          sX = sumX rd dataPoints;
          sY = sumY rd dataPoints;
          sxx = jsSub rd sXX (jsDiv rd (jsMul rd sX sX) n);
          scp = jsSub rd sXY (jsDiv rd (jsMul rd sX sY) n);
          slope = jsDiv rd scp sxx;
          intercept = jsSub rd meanY (jsMul rd slope meanX);
          yPredicted = jsAdd rd (jsMul rd slope (pt_x p)) intercept;
          residual = jsSub rd (pt_y p) yPredicted
      in \<lparr>row_x = pt_x p, row_y = pt_y p, row_yPredicted = yPredicted,
          row_xDiff = xDiff, row_yDiff = yDiff, row_residual = residual,
          row_xDiff2 = jsMul rd xDiff xDiff, row_xyDiff = jsMul rd xDiff yDiff,
          row_residual2 = jsMul rd residual residual, row_yDiff2 = jsMul rd yDiff yDiff\<rparr>)"

definition tableBody :: "rounding \<Rightarrow> DataPoint list \<Rightarrow> Row list" where
  "tableBody rd dataPoints = map (tableRow rd dataPoints) dataPoints"

text \<open>The four sums of the table footer.\<close>

definition footerSXX :: "rounding \<Rightarrow> DataPoint list \<Rightarrow> number" where
  "footerSXX rd dataPoints =
     reduce (\<lambda>acc p.
        let meanX = jsDiv rd (sumX rd dataPoints) (ofLength (length dataPoints));
            xDiff = jsSub rd (pt_x p) meanX
        in jsAdd rd acc (jsMul rd xDiff xDiff)) (Fin 0) dataPoints"

definition footerSCP :: "rounding \<Rightarrow> DataPoint list \<Rightarrow> number" where
  "footerSCP rd dataPoints =
     reduce (\<lambda>acc p.
        let meanX = jsDiv rd (sumX rd dataPoints) (ofLength (length dataPoints));
            meanY = jsDiv rd (sumY rd dataPoints) (ofLength (length dataPoints));
            xDiff = jsSub rd (pt_x p) meanX;
            yDiff = jsSub rd (pt_y p) meanY
        in jsAdd rd acc (jsMul rd xDiff yDiff)) (Fin 0) dataPoints"

definition footerSSres :: "rounding \<Rightarrow> DataPoint list \<Rightarrow> number" where
  "footerSSres rd dataPoints =
     reduce (\<lambda>acc p.
        let meanX = jsDiv rd (sumX rd dataPoints) (ofLength (length dataPoints));
            meanY = jsDiv rd (sumY rd dataPoints) (ofLength (length dataPoints));
            n = ofLength (length dataPoints);
            sXY = sumXY rd dataPoints;
            sXX = sumXX rd dataPoints;
            sX = sumX rd dataPoints;
            sY = sumY rd dataPoints;
            sxx = jsSub rd sXX (jsDiv rd (jsMul rd sX sX) n);
            scp = jsSub rd sXY (jsDiv rd (jsMul rd sX sY) n);
            slope = jsDiv rd scp sxx;
            intercept = jsSub rd meanY (jsMul rd slope meanX);
            yPredicted = jsAdd rd (jsMul rd slope (pt_x p)) intercept;
            residual = jsSub rd (pt_y p) yPredicted
        in jsAdd rd acc (jsMul rd residual residual)) (Fin 0) dataPoints"

definition footerSStot :: "rounding \<Rightarrow> DataPoint list \<Rightarrow> number" where
  "footerSStot rd dataPoints =
     reduce (\<lambda>acc p.
        let meanY = jsDiv rd (sumY rd dataPoints) (ofLength (length dataPoints));
            yDiff = jsSub rd (pt_y p) meanY
        in jsAdd rd acc (jsMul rd yDiff yDiff)) (Fin 0) dataPoints"

section \<open>GemmaChatbot: \<^verbatim>\<open>generateDataContext\<close>\<close>

text \<open>
  The function returns a template literal. It is modelled in two steps: the numbers that
  the template prints (\<open>contextNumbers\<close>), and the template itself as the list of its
  parts, where \<open>Fixed v d\<close> stands for \<^verbatim>\<open>v.toFixed(d)\<close> and \<open>Count k\<close> for the
  printed length. Both copies of the function in the file are the same text.
\<close>

record ContextNumbers =
  ctx_meanX :: number
  ctx_meanY :: number
  ctx_numerator :: number
  ctx_denominator :: number
  ctx_correlation :: number
  ctx_sxx :: number
  ctx_slope :: number
  ctx_intercept :: number

definition contextNumbers :: "rounding \<Rightarrow> DataPoint list \<Rightarrow> ContextNumbers" where
  "contextNumbers rd dataPoints =
     (let n = ofLength (length dataPoints);
          meanX = jsDiv rd (sumX rd dataPoints) n;
          meanY = jsDiv rd (sumY rd dataPoints) n;
          sXY = sumXY rd dataPoints;
          sXX = sumXX rd dataPoints;
          sYY = sumYY rd dataPoints;
          sX = sumX rd dataPoints;
          sY = sumY rd dataPoints;
          numerator = jsSub rd (jsMul rd n sXY) (jsMul rd sX sY);
          denominator =
            jsSqrt rd (jsMul rd (jsSub rd (jsMul rd n sXX) (jsMul rd sX sX))
                                (jsSub rd (jsMul rd n sYY) (jsMul rd sY sY)));
          correlation =
            (if strictNe denominator (Fin 0) then jsDiv rd numerator denominator else Fin 0);
          sxx = jsSub rd sXX (jsDiv rd (jsMul rd sX sX) n);
          scp = jsSub rd sXY (jsDiv rd (jsMul rd sX sY) n);
          slope = (if strictNe sxx (Fin 0) then jsDiv rd scp sxx else Fin 0);
          intercept = jsSub rd meanY (jsMul rd slope meanX)
      in \<lparr>ctx_meanX = meanX, ctx_meanY = meanY, ctx_numerator = numerator,
          ctx_denominator = denominator, ctx_correlation = correlation,
          ctx_sxx = sxx, ctx_slope = slope, ctx_intercept = intercept\<rparr>)"

datatype piece = Lit string | Count nat | Fixed number nat

definition generateDataContext :: "rounding \<Rightarrow> DataPoint list \<Rightarrow> piece list" where
  "generateDataContext rd dataPoints =
     (if length dataPoints = 0 then [Lit ''No data points have been entered yet.'']
      else
        let c = contextNumbers rd dataPoints
        in [Lit ''Current dataset: '', Count (length dataPoints),
            Lit '' data points. Mean X: '', Fixed (ctx_meanX c) 2,
            Lit '', Mean Y: '', Fixed (ctx_meanY c) 2,
            Lit ''. Linear regression: y = '', Fixed (ctx_slope c) 3,
            Lit ''x + '', Fixed (ctx_intercept c) 3,
            Lit ''. Correlation coefficient: '', Fixed (ctx_correlation c) 3,
            Lit ''.''])"

section \<open>DataInput and the dataset of App\<close>

text \<open>
  The two text fields are the component's state. \<^verbatim>\<open>parseFloat\<close> is the runtime's; it is
  a parameter. A handler returns the point it passes to \<^verbatim>\<open>onDataAdd\<close>, if it calls
  it, and the new state of the fields; \<open>emptyForm\<close> is the state after \<^verbatim>\<open>setX('')\<close> and
  \<^verbatim>\<open>setY('')\<close>.
\<close>

record FormState =
  field_x :: string
  field_y :: string

definition emptyForm :: FormState where
  "emptyForm = \<lparr>field_x = [], field_y = []\<rparr>"

definition handleSubmit ::
  "(string \<Rightarrow> number) \<Rightarrow> FormState \<Rightarrow> DataPoint option \<times> FormState" where
  "handleSubmit parseFloat st =
     (let xNum = parseFloat (field_x st);
          yNum = parseFloat (field_y st)
      in if \<not> isNaN xNum \<and> \<not> isNaN yNum
         then (Some \<lparr>pt_x = xNum, pt_y = yNum\<rparr>, emptyForm)
         else (None, st))"

definition handleYKeyDown ::
  "(string \<Rightarrow> number) \<Rightarrow> string \<Rightarrow> FormState \<Rightarrow> DataPoint option \<times> FormState" where
  "handleYKeyDown parseFloat key st =
     (if key = ''Enter''
      then
        let xNum = parseFloat (field_x st);
            yNum = parseFloat (field_y st)
        in if \<not> isNaN xNum \<and> \<not> isNaN yNum
           then (Some \<lparr>pt_x = xNum, pt_y = yNum\<rparr>, emptyForm)
           else (None, st)
      else (None, st))"

definition handleDataAdd :: "DataPoint list \<Rightarrow> DataPoint \<Rightarrow> DataPoint list" where
  "handleDataAdd dataPoints p = dataPoints @ [p]"

definition handleClear :: "DataPoint list \<Rightarrow> DataPoint list" where
  "handleClear dataPoints = []"

definition handleDeletePoint :: "DataPoint list \<Rightarrow> nat \<Rightarrow> DataPoint list" where
  "handleDeletePoint dataPoints index =
     map snd (filter (\<lambda>(i, p). i \<noteq> index) (enumerate 0 dataPoints))"

text \<open>The page: the dataset and the form, driven by the user's events.\<close>

record AppState =
  dataPoints :: "DataPoint list"
  form :: FormState

datatype event =
    ChangeX string
  | ChangeY string
  | Submit
  | YKeyDown string
  | ClearAll
  | DeleteRow nat

definition onDataAdd :: "AppState \<Rightarrow> DataPoint option \<times> FormState \<Rightarrow> AppState" where
  "onDataAdd s r =
     (case fst r of
        None \<Rightarrow> s\<lparr>form := snd r\<rparr>
      | Some p \<Rightarrow> \<lparr>dataPoints = handleDataAdd (dataPoints s) p, form = snd r\<rparr>)"

fun step :: "(string \<Rightarrow> number) \<Rightarrow> AppState \<Rightarrow> event \<Rightarrow> AppState" where
  "step parseFloat s (ChangeX v) = s\<lparr>form := (form s)\<lparr>field_x := v\<rparr>\<rparr>"
| "step parseFloat s (ChangeY v) = s\<lparr>form := (form s)\<lparr>field_y := v\<rparr>\<rparr>"
| "step parseFloat s Submit = onDataAdd s (handleSubmit parseFloat (form s))"
| "step parseFloat s (YKeyDown key) = onDataAdd s (handleYKeyDown parseFloat key (form s))"
| "step parseFloat s ClearAll = s\<lparr>dataPoints := handleClear (dataPoints s)\<rparr>"
| "step parseFloat s (DeleteRow i) = s\<lparr>dataPoints := handleDeletePoint (dataPoints s) i\<rparr>"

definition initialApp :: AppState where
  "initialApp = \<lparr>dataPoints = [], form = emptyForm\<rparr>"

definition run :: "(string \<Rightarrow> number) \<Rightarrow> event list \<Rightarrow> AppState" where
  "run parseFloat evs = foldl (step parseFloat) initialApp evs"

section \<open>Rounding to binary64\<close>

text \<open>
  IEEE 754 double precision, round to nearest, ties to even: \<open>ilog2 a\<close> is the exponent of
  the binade of \<open>a > 0\<close>, the exponent is not less than \<open>-1022\<close> (below it the values
  are subnormal), a value is a multiple of \<open>2\<^sup>e\<^sup>-\<^sup>5\<^sup>2\<close>, and a result that rounds to
  \<open>2\<^sup>1\<^sup>0\<^sup>2\<^sup>4\<close> or more is an infinity.
\<close>

definition roundHalfEven :: "real \<Rightarrow> int" where
  "roundHalfEven t =
     (let f = \<lfloor>t\<rfloor>; d = t - of_int f
      in if d < 1 / 2 then f else if 1 / 2 < d then f + 1 else if even f then f else f + 1)"

definition pow2 :: "int \<Rightarrow> real" where
  "pow2 k = (if 0 \<le> k then 2 ^ nat k else 1 / 2 ^ nat (- k))"

definition ilog2 :: "real \<Rightarrow> int" where
  "ilog2 a = (if 1 \<le> a then bitlen \<lfloor>a\<rfloor> - 1 else - bitlen (\<lceil>1 / a\<rceil> - 1))"

definition binary64 :: rounding where
  "binary64 r =
     (if r = 0 then Fin 0
      else
        let a = \<bar>r\<bar>;
            e = max (ilog2 a) (- 1022);
            q = pow2 (e - 52);
            v = of_int (roundHalfEven (a / q)) * q
        in if pow2 1024 \<le> v then (if 0 < r then PInf else NInf)
           else Fin (if 0 < r then v else - v))"

text \<open>The point that the form adds for two decimal inputs: \<^verbatim>\<open>parseFloat\<close> yields the
  double nearest to the decimal.\<close>

definition parsed :: "real \<Rightarrow> real \<Rightarrow> DataPoint" where
  "parsed a b = \<lparr>pt_x = binary64 a, pt_y = binary64 b\<rparr>"

section \<open>The quantities of the specification\<close>

text \<open>
  The steps of the specification, in the arithmetic of the program. Step 2 is a
  single-pass summation from the left: the sum of no points is 0, and the sum of a sequence
  that ends with the point \<open>p\<close> is the sum of the points before \<open>p\<close> plus the term
  of \<open>p\<close>. \<open>accumulated\<close> takes the points last first. These definitions follow the
  specification; the theorems below compare them with the functions of the source.
\<close>

primrec accumulated :: "rounding \<Rightarrow> (DataPoint \<Rightarrow> number) \<Rightarrow> DataPoint list \<Rightarrow> number" where
  "accumulated rd f [] = Fin 0"
| "accumulated rd f (p # earlier) = jsAdd rd (accumulated rd f earlier) (f p)"

definition leftSum :: "rounding \<Rightarrow> (DataPoint \<Rightarrow> number) \<Rightarrow> DataPoint list \<Rightarrow> number" where
  "leftSum rd f ps = accumulated rd f (rev ps)"

definition specMeanX :: "rounding \<Rightarrow> DataPoint list \<Rightarrow> number" where
  "specMeanX rd ps = jsDiv rd (leftSum rd pt_x ps) (ofLength (length ps))"

definition specMeanY :: "rounding \<Rightarrow> DataPoint list \<Rightarrow> number" where
  "specMeanY rd ps = jsDiv rd (leftSum rd pt_y ps) (ofLength (length ps))"

definition specSXX :: "rounding \<Rightarrow> DataPoint list \<Rightarrow> number" where
  "specSXX rd ps =
     jsSub rd (leftSum rd (\<lambda>p. jsMul rd (pt_x p) (pt_x p)) ps)
       (jsDiv rd (jsMul rd (leftSum rd pt_x ps) (leftSum rd pt_x ps)) (ofLength (length ps)))"

definition specSCP :: "rounding \<Rightarrow> DataPoint list \<Rightarrow> number" where
  "specSCP rd ps =
     jsSub rd (leftSum rd (\<lambda>p. jsMul rd (pt_x p) (pt_y p)) ps)
       (jsDiv rd (jsMul rd (leftSum rd pt_x ps) (leftSum rd pt_y ps)) (ofLength (length ps)))"

definition specSlope :: "rounding \<Rightarrow> DataPoint list \<Rightarrow> number" where
  "specSlope rd ps = jsDiv rd (specSCP rd ps) (specSXX rd ps)"


definition specNumerator :: "rounding \<Rightarrow> DataPoint list \<Rightarrow> number" where
  "specNumerator rd ps =
     jsSub rd (jsMul rd (ofLength (length ps)) (leftSum rd (\<lambda>p. jsMul rd (pt_x p) (pt_y p)) ps))
       (jsMul rd (leftSum rd pt_x ps) (leftSum rd pt_y ps))"

definition specDenominator :: "rounding \<Rightarrow> DataPoint list \<Rightarrow> number" where
  "specDenominator rd ps =
     jsSqrt rd
       (jsMul rd
          (jsSub rd
             (jsMul rd (ofLength (length ps)) (leftSum rd (\<lambda>p. jsMul rd (pt_x p) (pt_x p)) ps))
             (jsMul rd (leftSum rd pt_x ps) (leftSum rd pt_x ps)))
          (jsSub rd
             (jsMul rd (ofLength (length ps)) (leftSum rd (\<lambda>p. jsMul rd (pt_y p) (pt_y p)) ps))
             (jsMul rd (leftSum rd pt_y ps) (leftSum rd pt_y ps))))"

text \<open>
  The same formulas over the reals, for a dataset of finite points: the values that the
  steps would have without rounding, the argument of the square root in the denominator of
  the correlation, and the sum of the squared residuals of the data about the line
  \<open>y = a x + b\<close>.
\<close>

definition rx :: "DataPoint \<Rightarrow> real" where
  "rx p = theReal (pt_x p)"

definition ry :: "DataPoint \<Rightarrow> real" where
  "ry p = theReal (pt_y p)"

definition lsum :: "(DataPoint \<Rightarrow> real) \<Rightarrow> DataPoint list \<Rightarrow> real" where
  "lsum f ps = foldl (\<lambda>acc p. acc + f p) 0 ps"





definition realRadicand :: "DataPoint list \<Rightarrow> real" where
  "realRadicand ps =
     (real (length ps) * lsum (\<lambda>p. rx p * rx p) ps - lsum rx ps * lsum rx ps)
     * (real (length ps) * lsum (\<lambda>p. ry p * ry p) ps - lsum ry ps * lsum ry ps)"








text \<open>
  \<^verbatim>\<open>v.toFixed(d)\<close> for a finite \<open>v\<close> below \<open>10\<^sup>2\<^sup>1\<close>: whether it prints a minus sign,
  and the digits it prints, read as a natural number (the decimal point stands before the
  last \<open>d\<close> digits). Of two nearest decimals it takes the larger. \<open>None\<close> stands for the
  words that it prints for NaN and the infinities.
\<close>

fun toFixed :: "nat \<Rightarrow> number \<Rightarrow> (bool \<times> nat) option" where
  "toFixed d (Fin a) = Some (a < 0, nat \<lfloor>\<bar>a\<bar> * 10 ^ d + 1 / 2\<rfloor>)"
| "toFixed d v = None"

section \<open>Sample inputs\<close>

text \<open>The known fixture of the specification, as the form adds it and as integer pairs.\<close>

definition fixture :: "DataPoint list" where
  "fixture = [parsed 1 2, parsed 2 4, parsed 3 5, parsed 4 4, parsed 5 5]"



definition diagonal :: "DataPoint list" where
  "diagonal = [parsed 0 0, parsed 1 1]"


text \<open>A parser for the sample form inputs: it reads the digits \<open>3\<close> and \<open>4\<close> as
  \<^verbatim>\<open>parseFloat\<close> does and yields NaN on the other strings.\<close>

definition sampleParse :: "string \<Rightarrow> number" where
  "sampleParse s = (if s = ''3'' then Fin 3 else if s = ''4'' then Fin 4 else NaN)"

definition sampleEvents :: "event list" where
  "sampleEvents =
     [ChangeX ''3'', ChangeY ''4'', Submit, ChangeX ''abc'', ChangeY ''4'', Submit,
      YKeyDown ''Enter'']"

section \<open>The source follows the steps of the specification\<close>

lemma leftSum_snoc: "leftSum rd f (ps @ [p]) = jsAdd rd (leftSum rd f ps) (f p)"
  by (simp add: leftSum_def)

text \<open>On three points the specification's sum is \<open>((0 + f a) + f b) + f c\<close>.\<close>

lemma leftSum_three:
  "leftSum rd f [a, b, c] = jsAdd rd (jsAdd rd (jsAdd rd (Fin 0) (f a)) (f b)) (f c)"
  by (simp add: leftSum_def)

lemma reduce_leftSum: "reduce (\<lambda>acc p. jsAdd rd acc (f p)) (Fin 0) ps = leftSum rd f ps"
proof (induction ps rule: rev_induct)
  case Nil
  show ?case by (simp add: reduce_def leftSum_def)
next
  case (snoc p ps)
  then show ?case by (simp add: reduce_def leftSum_snoc)
qed

lemma sums_leftSum:
  "sumX rd ps = leftSum rd pt_x ps"
  "sumY rd ps = leftSum rd pt_y ps"
  "sumXY rd ps = leftSum rd (\<lambda>p. jsMul rd (pt_x p) (pt_y p)) ps"
  "sumXX rd ps = leftSum rd (\<lambda>p. jsMul rd (pt_x p) (pt_x p)) ps"
  "sumYY rd ps = leftSum rd (\<lambda>p. jsMul rd (pt_y p) (pt_y p)) ps"
  by (simp_all add: sumX_def sumY_def sumXY_def sumXX_def sumYY_def reduce_leftSum)

text \<open>Whatever the rounding, a dataset of fewer than two points has no summary, and a
  dataset of two points or more has one, the one of the specification.\<close>

lemma calculateStats_insufficient:
  "length dat < 2 \<Longrightarrow> calculateStats rd r2 dat = None"
  by (simp add: calculateStats_def)


lemma contextNumbers_spec:
  "contextNumbers rd ps =
     \<lparr>ctx_meanX = specMeanX rd ps, ctx_meanY = specMeanY rd ps,
      ctx_numerator = specNumerator rd ps, ctx_denominator = specDenominator rd ps,
      ctx_correlation =
        (if strictNe (specDenominator rd ps) (Fin 0)
         then jsDiv rd (specNumerator rd ps) (specDenominator rd ps) else Fin 0),
      ctx_sxx = specSXX rd ps,
      ctx_slope = (if strictNe (specSXX rd ps) (Fin 0) then specSlope rd ps else Fin 0),
      ctx_intercept =
        jsSub rd (specMeanY rd ps)
          (jsMul rd (if strictNe (specSXX rd ps) (Fin 0) then specSlope rd ps else Fin 0)
             (specMeanX rd ps))\<rparr>"
  by (simp add: contextNumbers_def Let_def sums_leftSum specSXX_def specSCP_def specSlope_def
        specNumerator_def specDenominator_def specMeanX_def specMeanY_def)

section \<open>Integers in binary64 arithmetic\<close>

lemma roundHalfEven_of_int: "roundHalfEven (of_int j) = j"
  by (simp add: roundHalfEven_def)

lemma pow2_nonpos: "k \<le> 0 \<Longrightarrow> pow2 k = 1 / 2 ^ nat (- k)"
  by (cases "k = 0") (simp_all add: pow2_def)

lemma bitlen_small:
  assumes "0 < k" "k < 2 ^ 53"
  shows "1 \<le> bitlen k" "bitlen k \<le> 53"
proof -
  show "1 \<le> bitlen k" using assms(1) by (simp add: bitlen_ge_iff_power)
  show "bitlen k \<le> 53" using assms(2) by (simp add: bitlen_le_iff_power)
qed

lemma binary64_of_pos_int:
  assumes "0 < k" "k < 2 ^ 53"
  shows "binary64 (of_int k) = Fin (of_int k)"
proof -
  define e where "e = bitlen k - 1"
  define m where "m = nat (52 - e)"
  have e: "0 \<le> e" "e \<le> 52" using bitlen_small [OF assms] by (simp_all add: e_def)
  have pos: "(0::real) < of_int k" using assms(1) by simp
  have one: "(1::real) \<le> of_int k" using assms(1) by simp
  have il: "ilog2 (of_int k) = e" using one by (simp add: ilog2_def e_def)
  have mx: "max e (- 1022) = e" using e by simp
  have q: "pow2 (e - 52) = 1 / 2 ^ m" using e by (simp add: pow2_nonpos m_def)
  have dv: "real_of_int k / pow2 (e - 52) = of_int (k * 2 ^ m)" by (simp add: q)
  have v: "real_of_int (roundHalfEven (real_of_int k / pow2 (e - 52))) * pow2 (e - 52) = of_int k"
    unfolding dv roundHalfEven_of_int by (simp add: q)
  have "real_of_int k < 2 ^ 53" using assms(2) by (metis of_int_less_iff of_int_numeral of_int_power)
  also have "\<dots> \<le> (2::real) ^ 1024" by (rule power_increasing) simp_all
  finally have lt: "\<not> pow2 1024 \<le> real_of_int k" by (simp add: pow2_def)
  have a: "\<bar>real_of_int k\<bar> = real_of_int k" using pos by simp
  have nz: "real_of_int k \<noteq> 0" using pos by simp
  show ?thesis
    unfolding binary64_def Let_def a il mx v using pos lt nz by simp
qed

lemma binary64_neg_arg: "binary64 (- r) = jsNeg (binary64 r)"
  by (simp add: binary64_def Let_def)

lemma binary64_of_int:
  assumes "\<bar>k\<bar> < 2 ^ 53"
  shows "binary64 (of_int k) = Fin (of_int k)"
proof -
  consider "k = 0" | "0 < k" | "k < 0" by linarith
  then show ?thesis
  proof cases
    case 1
    then show ?thesis by (simp add: binary64_def)
  next
    case 2
    with assms show ?thesis by (simp add: binary64_of_pos_int)
  next
    case 3
    with assms have "binary64 (of_int (- k)) = Fin (of_int (- k))"
      by (intro binary64_of_pos_int) simp_all
    then have "binary64 (- of_int k) = Fin (- of_int k)" by simp
    then show ?thesis using binary64_neg_arg [of "of_int k"] by (cases "binary64 (of_int k)") simp_all
  qed
qed









section \<open>Least squares over the reals\<close>












section \<open>A computation that does not round\<close>





section \<open>The data-entry form\<close>

lemma handlers_no_nan:
  "fst (handleSubmit parseFloat st) = Some p \<Longrightarrow> \<not> isNaN (pt_x p) \<and> \<not> isNaN (pt_y p)"
  "fst (handleYKeyDown parseFloat key st) = Some p \<Longrightarrow> \<not> isNaN (pt_x p) \<and> \<not> isNaN (pt_y p)"
  by (auto simp add: handleSubmit_def handleYKeyDown_def Let_def split: if_splits)

lemma delete_subset: "set (handleDeletePoint ps i) \<subseteq> set ps"
  by (auto simp add: handleDeletePoint_def in_set_enumerate_eq)

lemma step_no_nan:
  assumes "\<forall>p \<in> set (dataPoints s). \<not> isNaN (pt_x p) \<and> \<not> isNaN (pt_y p)"
  shows "\<forall>p \<in> set (dataPoints (step parseFloat s ev)). \<not> isNaN (pt_x p) \<and> \<not> isNaN (pt_y p)"
proof (cases ev)
  case Submit
  with assms handlers_no_nan(1) [of parseFloat "form s"] show ?thesis
    by (cases "fst (handleSubmit parseFloat (form s))")
      (auto simp add: onDataAdd_def handleDataAdd_def)
next
  case (YKeyDown key)
  with assms handlers_no_nan(2) [of parseFloat key "form s"] show ?thesis
    by (cases "fst (handleYKeyDown parseFloat key (form s))")
      (auto simp add: onDataAdd_def handleDataAdd_def)
next
  case (DeleteRow i)
  with assms delete_subset [of "dataPoints s" i] show ?thesis by auto
qed (use assms in \<open>auto simp add: handleClear_def\<close>)

lemma foldl_step_no_nan:
  assumes "\<forall>p \<in> set (dataPoints s). \<not> isNaN (pt_x p) \<and> \<not> isNaN (pt_y p)"
  shows "\<forall>p \<in> set (dataPoints (foldl (step parseFloat) s evs)).
           \<not> isNaN (pt_x p) \<and> \<not> isNaN (pt_y p)"
  using assms
proof (induction evs arbitrary: s)
  case Nil
  then show ?case by simp
next
  case (Cons ev evs)
  from Cons.IH [OF step_no_nan [OF Cons.prems]] show ?case by simp
qed

section \<open>The chat data context\<close>

text \<open>For the empty dataset the context is the fixed sentence.\<close>

lemma context_empty:
  "generateDataContext rd [] = [Lit ''No data points have been entered yet.'']"
  by (simp add: generateDataContext_def)

section \<open>Evaluation in binary64 arithmetic\<close>

text \<open>A rounding is evaluated from the exponent and the significand of its result.\<close>

lemma binary64_pos:
  assumes "0 < r" and "ilog2 r = e" and "- 1022 \<le> e"
    and "roundHalfEven (r / pow2 (e - 52)) = m"
    and "of_int m * pow2 (e - 52) < pow2 1024"
  shows "binary64 r = Fin (of_int m * pow2 (e - 52))"
proof -
  have a: "\<bar>r\<bar> = r" using assms(1) by simp
  have e: "max (ilog2 r) (- 1022) = e" using assms(2,3) by simp
  show ?thesis
    unfolding binary64_def Let_def a e assms(4) using assms(1,5) by simp
qed

lemma binary64_neg:
  assumes "r < 0" and "ilog2 (- r) = e" and "- 1022 \<le> e"
    and "roundHalfEven (- r / pow2 (e - 52)) = m"
    and "of_int m * pow2 (e - 52) < pow2 1024"
  shows "binary64 r = Fin (- (of_int m * pow2 (e - 52)))"
proof -
  have a: "\<bar>r\<bar> = - r" using assms(1) by simp
  have e: "max (ilog2 (- r)) (- 1022) = e" using assms(2,3) by simp
  show ?thesis
    unfolding binary64_def Let_def a e assms(4) using assms(1,5) by simp
qed

lemma binary64_zero: "binary64 0 = Fin 0"
  by (simp add: binary64_def)

lemmas rounding_eval = ilog2_def pow2_def roundHalfEven_def Let_def compute_bitlen

text \<open>An integer below \<open>2\<^sup>5\<^sup>3\<close> is a double.\<close>

lemma binary64_one: "binary64 1 = Fin 1"
  using binary64_of_int [of 1] by simp

lemma binary64_minus_one: "binary64 (- 1) = Fin (- 1)"
  using binary64_of_int [of "- 1"] by simp

lemma binary64_numeral: "numeral k < (2::int) ^ 53 \<Longrightarrow> binary64 (numeral k) = Fin (numeral k)"
  using binary64_of_int [of "numeral k"] by simp

lemma binary64_neg_numeral:
  "numeral k < (2::int) ^ 53 \<Longrightarrow> binary64 (- numeral k) = Fin (- numeral k)"
  using binary64_of_int [of "- numeral k"] by simp

lemmas binary64_integer = binary64_zero binary64_one binary64_minus_one binary64_numeral
  binary64_neg_numeral

text \<open>Two well-known doubles: 0.1 is \<open>3602879701896397 / 2\<^sup>5\<^sup>5\<close>, and \<open>0.1 + 0.2\<close> is the
  double above 0.3.\<close>

lemma binary64_tenth: "binary64 (1 / 10) = Fin (3602879701896397 / 36028797018963968)"
  using binary64_pos [of "1 / 10" "- 4" 7205759403792794] by (simp add: rounding_eval)

lemma binary64_fifth: "binary64 (1 / 5) = Fin (3602879701896397 / 18014398509481984)"
  using binary64_pos [of "1 / 5" "- 3" 7205759403792794] by (simp add: rounding_eval)

lemma binary64_three_tenths: "binary64 (3 / 10) = Fin (5404319552844595 / 18014398509481984)"
  using binary64_pos [of "3 / 10" "- 2" 5404319552844595] by (simp add: rounding_eval)

lemma binary64_tenth_plus_fifth:
  "jsAdd binary64 (binary64 (1 / 10)) (binary64 (1 / 5)) = Fin (5404319552844596 / 18014398509481984)"
  using binary64_pos [of "10808639105689191 / 36028797018963968" "- 2" 5404319552844596]
  by (simp add: binary64_tenth binary64_fifth rounding_eval)

text \<open>The roundings of the computations on the sample inputs below, in the order in which
  they occur.\<close>

lemma rounding_1: "binary64 (13 / 10) = Fin (5854679515581645 / 4503599627370496)"
  using binary64_pos [of "13 / 10" "0" 5854679515581645] by (simp add: rounding_eval)

lemma rounding_2: "binary64 (5854679515581645 / 4503599627370496) = Fin (5854679515581645 / 4503599627370496)"
  using binary64_pos [of "5854679515581645 / 4503599627370496" "0" 5854679515581645] by (simp add: rounding_eval)

lemma rounding_3: "binary64 (5854679515581645 / 2251799813685248) = Fin (5854679515581645 / 2251799813685248)"
  using binary64_pos [of "5854679515581645 / 2251799813685248" "1" 5854679515581645] by (simp add: rounding_eval)

lemma rounding_4: "binary64 (17564038546744935 / 4503599627370496) = Fin (2195504818343117 / 562949953421312)"
  using binary64_pos [of "17564038546744935 / 4503599627370496" "1" 8782019273372468] by (simp add: rounding_eval)

lemma rounding_5: "binary64 (2195504818343117 / 1688849860263936) = Fin (5854679515581645 / 4503599627370496)"
  using binary64_pos [of "2195504818343117 / 1688849860263936" "0" 5854679515581645] by (simp add: rounding_eval)

lemma rounding_6: "binary64 (34277272230171325358342660906025 / 20282409603651670423947251286016) = Fin (7611083370256139 / 4503599627370496)"
  using binary64_pos [of "34277272230171325358342660906025 / 20282409603651670423947251286016" "0" 7611083370256139] by (simp add: rounding_eval)

lemma rounding_7: "binary64 (7611083370256139 / 4503599627370496) = Fin (7611083370256139 / 4503599627370496)"
  using binary64_pos [of "7611083370256139 / 4503599627370496" "0" 7611083370256139] by (simp add: rounding_eval)

lemma rounding_8: "binary64 (7611083370256139 / 2251799813685248) = Fin (7611083370256139 / 2251799813685248)"
  using binary64_pos [of "7611083370256139 / 2251799813685248" "1" 7611083370256139] by (simp add: rounding_eval)

lemma rounding_9: "binary64 (22833250110768417 / 4503599627370496) = Fin (713539065961513 / 140737488355328)"
  using binary64_pos [of "22833250110768417 / 4503599627370496" "2" 5708312527692104] by (simp add: rounding_eval)

lemma rounding_10: "binary64 (6586514455029351 / 562949953421312) = Fin (6586514455029351 / 562949953421312)"
  using binary64_pos [of "6586514455029351 / 562949953421312" "3" 6586514455029351] by (simp add: rounding_eval)

lemma rounding_11: "binary64 (2140617197884539 / 140737488355328) = Fin (2140617197884539 / 140737488355328)"
  using binary64_pos [of "2140617197884539 / 140737488355328" "3" 8562468791538156] by (simp add: rounding_eval)

lemma rounding_12: "binary64 (4820241407367843177393141275689 / 316912650057057350374175801344) = Fin (8562468791538157 / 562949953421312)"
  using binary64_pos [of "4820241407367843177393141275689 / 316912650057057350374175801344" "3" 8562468791538157] by (simp add: rounding_eval)

lemma rounding_13: "binary64 (- (1 / 562949953421312)) = Fin (- (1 / 562949953421312))"
  using binary64_neg [of "- (1 / 562949953421312)" "- 49" 4503599627370496] by (simp add: rounding_eval)

lemma rounding_14: "binary64 (- (3 / 281474976710656)) = Fin (- (3 / 281474976710656))"
  using binary64_neg [of "- (3 / 281474976710656)" "- 47" 6755399441055744] by (simp add: rounding_eval)

lemma rounding_15: "binary64 (8562468791538157 / 1688849860263936) = Fin (5708312527692105 / 1125899906842624)"
  using binary64_pos [of "8562468791538157 / 1688849860263936" "2" 5708312527692105] by (simp add: rounding_eval)

lemma rounding_16: "binary64 (- (1 / 1125899906842624)) = Fin (- (1 / 1125899906842624))"
  using binary64_neg [of "- (1 / 1125899906842624)" "- 50" 4503599627370496] by (simp add: rounding_eval)

lemma rounding_17: "binary64 (2195504818343117 / 562949953421312) = Fin (2195504818343117 / 562949953421312)"
  using binary64_pos [of "2195504818343117 / 562949953421312" "1" 8782019273372468] by (simp add: rounding_eval)

lemma rounding_18: "binary64 (3 / 5) = Fin (5404319552844595 / 9007199254740992)"
  using binary64_pos [of "3 / 5" "- 1" 5404319552844595] by (simp add: rounding_eval)

lemma rounding_19: "binary64 (16212958658533785 / 9007199254740992) = Fin (2026619832316723 / 1125899906842624)"
  using binary64_pos [of "16212958658533785 / 9007199254740992" "0" 8106479329266892] by (simp add: rounding_eval)

lemma rounding_20: "binary64 (2476979795053773 / 1125899906842624) = Fin (2476979795053773 / 1125899906842624)"
  using binary64_pos [of "2476979795053773 / 1125899906842624" "1" 4953959590107546] by (simp add: rounding_eval)

lemma rounding_21: "binary64 (5404319552844595 / 9007199254740992) = Fin (5404319552844595 / 9007199254740992)"
  using binary64_pos [of "5404319552844595 / 9007199254740992" "- 1" 5404319552844595] by (simp add: rounding_eval)

lemma rounding_22: "binary64 (25220157913274779 / 9007199254740992) = Fin (6305039478318695 / 2251799813685248)"
  using binary64_pos [of "25220157913274779 / 9007199254740992" "1" 6305039478318695] by (simp add: rounding_eval)

lemma rounding_23: "binary64 (- (1801439850948199 / 2251799813685248)) = Fin (- (1801439850948199 / 2251799813685248))"
  using binary64_neg [of "- (1801439850948199 / 2251799813685248)" "- 1" 7205759403792796] by (simp add: rounding_eval)

lemma rounding_24: "binary64 (3245185536584269429559381343601 / 5070602400912917605986812821504) = Fin (5764607523034239 / 9007199254740992)"
  using binary64_pos [of "3245185536584269429559381343601 / 5070602400912917605986812821504" "- 1" 5764607523034239] by (simp add: rounding_eval)

lemma rounding_25: "binary64 (5404319552844595 / 4503599627370496) = Fin (5404319552844595 / 4503599627370496)"
  using binary64_pos [of "5404319552844595 / 4503599627370496" "0" 5404319552844595] by (simp add: rounding_eval)

lemma rounding_26: "binary64 (15312238733059687 / 4503599627370496) = Fin (1914029841632461 / 562949953421312)"
  using binary64_pos [of "15312238733059687 / 4503599627370496" "1" 7656119366529844] by (simp add: rounding_eval)

lemma rounding_27: "binary64 (337769972052787 / 562949953421312) = Fin (337769972052787 / 562949953421312)"
  using binary64_pos [of "337769972052787 / 562949953421312" "- 1" 5404319552844592] by (simp add: rounding_eval)

lemma rounding_28: "binary64 (114088554020540511026714467369 / 316912650057057350374175801344) = Fin (6485183463413507 / 18014398509481984)"
  using binary64_pos [of "114088554020540511026714467369 / 316912650057057350374175801344" "- 2" 6485183463413507] by (simp add: rounding_eval)

lemma rounding_29: "binary64 (5404319552844595 / 2251799813685248) = Fin (5404319552844595 / 2251799813685248)"
  using binary64_pos [of "5404319552844595 / 2251799813685248" "1" 5404319552844595] by (simp add: rounding_eval)

lemma rounding_30: "binary64 (10358279142952141 / 2251799813685248) = Fin (2589569785738035 / 562949953421312)"
  using binary64_pos [of "10358279142952141 / 2251799813685248" "2" 5179139571476070] by (simp add: rounding_eval)

lemma rounding_31: "binary64 (- (337769972052787 / 562949953421312)) = Fin (- (337769972052787 / 562949953421312))"
  using binary64_neg [of "- (337769972052787 / 562949953421312)" "- 1" 5404319552844592] by (simp add: rounding_eval)

lemma rounding_32: "binary64 (27021597764222975 / 9007199254740992) = Fin 3"
  using binary64_pos [of "27021597764222975 / 9007199254740992" "1" 6755399441055744] by (simp add: rounding_eval)

lemma rounding_33: "binary64 (5854679515581645 / 1125899906842624) = Fin (5854679515581645 / 1125899906842624)"
  using binary64_pos [of "5854679515581645 / 1125899906842624" "2" 5854679515581645] by (simp add: rounding_eval)

lemma rounding_34: "binary64 (- (225179981368525 / 1125899906842624)) = Fin (- (225179981368525 / 1125899906842624))"
  using binary64_neg [of "- (225179981368525 / 1125899906842624)" "- 3" 7205759403792800] by (simp add: rounding_eval)

lemma rounding_35: "binary64 (50706024009129266131860675625 / 1267650600228229401496703205376) = Fin (5764607523034245 / 144115188075855872)"
  using binary64_pos [of "50706024009129266131860675625 / 1267650600228229401496703205376" "- 5" 5764607523034245] by (simp add: rounding_eval)

lemma rounding_36: "binary64 (5764607523034239 / 9007199254740992) = Fin (5764607523034239 / 9007199254740992)"
  using binary64_pos [of "5764607523034239 / 9007199254740992" "- 1" 5764607523034239] by (simp add: rounding_eval)

lemma rounding_37: "binary64 (18014398509481985 / 18014398509481984) = Fin 1"
  using binary64_pos [of "18014398509481985 / 18014398509481984" "0" 4503599627370496] by (simp add: rounding_eval)

lemma rounding_38: "binary64 (42513980482377475 / 18014398509481984) = Fin (166070236259287 / 70368744177664)"
  using binary64_pos [of "42513980482377475 / 18014398509481984" "1" 5314247560297184] by (simp add: rounding_eval)

lemma rounding_39: "binary64 (345876451382054021 / 144115188075855872) = Fin (2702159776422297 / 1125899906842624)"
  using binary64_pos [of "345876451382054021 / 144115188075855872" "1" 5404319552844594] by (simp add: rounding_eval)

lemma rounding_40: "binary64 (1 / 10) = Fin (3602879701896397 / 36028797018963968)"
  using binary64_pos [of "1 / 10" "- 4" 7205759403792794] by (simp add: rounding_eval)

lemma rounding_41: "binary64 (3602879701896397 / 36028797018963968) = Fin (3602879701896397 / 36028797018963968)"
  using binary64_pos [of "3602879701896397 / 36028797018963968" "- 4" 7205759403792794] by (simp add: rounding_eval)

lemma rounding_42: "binary64 (3602879701896397 / 18014398509481984) = Fin (3602879701896397 / 18014398509481984)"
  using binary64_pos [of "3602879701896397 / 18014398509481984" "- 3" 7205759403792794] by (simp add: rounding_eval)

lemma rounding_43: "binary64 (10808639105689191 / 36028797018963968) = Fin (1351079888211149 / 4503599627370496)"
  using binary64_pos [of "10808639105689191 / 36028797018963968" "- 2" 5404319552844596] by (simp add: rounding_eval)

lemma rounding_44: "binary64 (3602879701896397 / 9007199254740992) = Fin (3602879701896397 / 9007199254740992)"
  using binary64_pos [of "3602879701896397 / 9007199254740992" "- 2" 7205759403792794] by (simp add: rounding_eval)

lemma rounding_45: "binary64 (6305039478318695 / 9007199254740992) = Fin (6305039478318695 / 9007199254740992)"
  using binary64_pos [of "6305039478318695 / 9007199254740992" "- 1" 6305039478318695] by (simp add: rounding_eval)

lemma rounding_46: "binary64 (12980742146337070512478121581609 / 1298074214633706907132624082305024) = Fin (1441151880758559 / 144115188075855872)"
  using binary64_pos [of "12980742146337070512478121581609 / 1298074214633706907132624082305024" "- 7" 5764607523034236] by (simp add: rounding_eval)

lemma rounding_47: "binary64 (1441151880758559 / 144115188075855872) = Fin (1441151880758559 / 144115188075855872)"
  using binary64_pos [of "1441151880758559 / 144115188075855872" "- 7" 5764607523034236] by (simp add: rounding_eval)

lemma rounding_48: "binary64 (1441151880758559 / 72057594037927936) = Fin (1441151880758559 / 72057594037927936)"
  using binary64_pos [of "1441151880758559 / 72057594037927936" "- 6" 5764607523034236] by (simp add: rounding_eval)

lemma rounding_49: "binary64 (4323455642275677 / 144115188075855872) = Fin (4323455642275677 / 144115188075855872)"
  using binary64_pos [of "4323455642275677 / 144115188075855872" "- 6" 8646911284551354] by (simp add: rounding_eval)

lemma rounding_50: "binary64 (1351079888211149 / 13510798882111488) = Fin (7205759403792795 / 72057594037927936)"
  using binary64_pos [of "1351079888211149 / 13510798882111488" "- 4" 7205759403792795] by (simp add: rounding_eval)

lemma rounding_51: "binary64 (7 / 3) = Fin (5254199565265579 / 2251799813685248)"
  using binary64_pos [of "7 / 3" "1" 5254199565265579] by (simp add: rounding_eval)

lemma rounding_52: "binary64 (1825416864328650878587207900201 / 20282409603651670423947251286016) = Fin (1621295865853379 / 18014398509481984)"
  using binary64_pos [of "1825416864328650878587207900201 / 20282409603651670423947251286016" "- 4" 6485183463413516] by (simp add: rounding_eval)

lemma rounding_53: "binary64 (1621295865853379 / 54043195528445952) = Fin (8646911284551355 / 288230376151711744)"
  using binary64_pos [of "1621295865853379 / 54043195528445952" "- 6" 8646911284551355] by (simp add: rounding_eval)

lemma rounding_54: "binary64 (- (1 / 288230376151711744)) = Fin (- (1 / 288230376151711744))"
  using binary64_neg [of "- (1 / 288230376151711744)" "- 58" 4503599627370496] by (simp add: rounding_eval)

lemma rounding_55: "binary64 (9457559217478043 / 4503599627370496) = Fin (2364389804369511 / 1125899906842624)"
  using binary64_pos [of "9457559217478043 / 4503599627370496" "1" 4728779608739022] by (simp add: rounding_eval)

lemma rounding_56: "binary64 (788129934789837 / 1125899906842624) = Fin (788129934789837 / 1125899906842624)"
  using binary64_pos [of "788129934789837 / 1125899906842624" "- 1" 6305039478318696] by (simp add: rounding_eval)

lemma rounding_57: "binary64 (- (1 / 9007199254740992)) = Fin (- (1 / 9007199254740992))"
  using binary64_neg [of "- (1 / 9007199254740992)" "- 53" 4503599627370496] by (simp add: rounding_eval)

lemma rounding_58: "binary64 (7205759403792795 / 2251799813685248) = Fin (7205759403792795 / 2251799813685248)"
  using binary64_pos [of "7205759403792795 / 2251799813685248" "1" 7205759403792795] by (simp add: rounding_eval)

lemma rounding_59: "binary64 (- (121972489907951 / 140737488355328)) = Fin (- (121972489907951 / 140737488355328))"
  using binary64_neg [of "- (121972489907951 / 140737488355328)" "- 1" 7806239354108864] by (simp add: rounding_eval)

lemma rounding_60: "binary64 (18915118434956085 / 9007199254740992) = Fin (4728779608739021 / 2251799813685248)"
  using binary64_pos [of "18915118434956085 / 9007199254740992" "1" 4728779608739021] by (simp add: rounding_eval)

lemma rounding_61: "binary64 (- (1 / 2251799813685248)) = Fin (- (1 / 2251799813685248))"
  using binary64_neg [of "- (1 / 2251799813685248)" "- 51" 4503599627370496] by (simp add: rounding_eval)

lemma rounding_62: "binary64 (12970366926827031 / 144115188075855872) = Fin (1621295865853379 / 18014398509481984)"
  using binary64_pos [of "12970366926827031 / 144115188075855872" "- 4" 6485183463413516] by (simp add: rounding_eval)

lemma rounding_63: "binary64 (1 / 5) = Fin (3602879701896397 / 18014398509481984)"
  using binary64_pos [of "1 / 5" "- 3" 7205759403792794] by (simp add: rounding_eval)

lemma rounding_64: "binary64 (3 / 10) = Fin (5404319552844595 / 18014398509481984)"
  using binary64_pos [of "3 / 10" "- 2" 5404319552844595] by (simp add: rounding_eval)

lemma rounding_65: "binary64 (10808639105689191 / 18014398509481984) = Fin (1351079888211149 / 2251799813685248)"
  using binary64_pos [of "10808639105689191 / 18014398509481984" "- 1" 5404319552844596] by (simp add: rounding_eval)

lemma rounding_66: "binary64 (18014398509481985 / 36028797018963968) = Fin (1 / 2)"
  using binary64_pos [of "18014398509481985 / 36028797018963968" "- 1" 4503599627370496] by (simp add: rounding_eval)

lemma rounding_67: "binary64 (7656119366529843 / 4503599627370496) = Fin (7656119366529843 / 4503599627370496)"
  using binary64_pos [of "7656119366529843 / 4503599627370496" "0" 7656119366529843] by (simp add: rounding_eval)

lemma rounding_68: "binary64 (12980742146337070512478121581609 / 324518553658426726783156020576256) = Fin (1441151880758559 / 36028797018963968)"
  using binary64_pos [of "12980742146337070512478121581609 / 324518553658426726783156020576256" "- 5" 5764607523034236] by (simp add: rounding_eval)

lemma rounding_69: "binary64 (7205759403792795 / 144115188075855872) = Fin (7205759403792795 / 144115188075855872)"
  using binary64_pos [of "7205759403792795 / 144115188075855872" "- 5" 7205759403792795] by (simp add: rounding_eval)

lemma rounding_70: "binary64 (29206669829258403248756220714025 / 324518553658426726783156020576256) = Fin (3242591731706757 / 36028797018963968)"
  using binary64_pos [of "29206669829258403248756220714025 / 324518553658426726783156020576256" "- 4" 6485183463413514] by (simp add: rounding_eval)

lemma rounding_71: "binary64 (20176126330619823 / 144115188075855872) = Fin (1261007895663739 / 9007199254740992)"
  using binary64_pos [of "20176126330619823 / 144115188075855872" "- 3" 5044031582654956] by (simp add: rounding_eval)

lemma rounding_72: "binary64 (1351079888211149 / 6755399441055744) = Fin (7205759403792795 / 36028797018963968)"
  using binary64_pos [of "1351079888211149 / 6755399441055744" "- 3" 7205759403792795] by (simp add: rounding_eval)

lemma rounding_73: "binary64 (1825416864328650878587207900201 / 5070602400912917605986812821504) = Fin (1621295865853379 / 4503599627370496)"
  using binary64_pos [of "1825416864328650878587207900201 / 5070602400912917605986812821504" "- 2" 6485183463413516] by (simp add: rounding_eval)

lemma rounding_74: "binary64 (1621295865853379 / 13510798882111488) = Fin (8646911284551355 / 72057594037927936)"
  using binary64_pos [of "1621295865853379 / 13510798882111488" "- 4" 8646911284551355] by (simp add: rounding_eval)

lemma rounding_75: "binary64 (1441151880758557 / 72057594037927936) = Fin (1441151880758557 / 72057594037927936)"
  using binary64_pos [of "1441151880758557 / 72057594037927936" "- 6" 5764607523034228] by (simp add: rounding_eval)

lemma rounding_76: "binary64 (9457559217478043 / 2251799813685248) = Fin (2364389804369511 / 562949953421312)"
  using binary64_pos [of "9457559217478043 / 2251799813685248" "2" 4728779608739022] by (simp add: rounding_eval)

lemma rounding_77: "binary64 (788129934789837 / 562949953421312) = Fin (788129934789837 / 562949953421312)"
  using binary64_pos [of "788129934789837 / 562949953421312" "0" 6305039478318696] by (simp add: rounding_eval)

lemma rounding_78: "binary64 (1351079888211147 / 4503599627370496) = Fin (1351079888211147 / 4503599627370496)"
  using binary64_pos [of "1351079888211147 / 4503599627370496" "- 2" 5404319552844588] by (simp add: rounding_eval)

lemma rounding_79: "binary64 (21617278211378352 / 1441151880758557) = Fin (8444249301319679 / 562949953421312)"
  using binary64_pos [of "21617278211378352 / 1441151880758557" "3" 8444249301319679] by (simp add: rounding_eval)

lemma rounding_80: "binary64 (60847228810955015888031371912805 / 20282409603651670423947251286016) = Fin (6755399441055745 / 2251799813685248)"
  using binary64_pos [of "60847228810955015888031371912805 / 20282409603651670423947251286016" "1" 6755399441055745] by (simp add: rounding_eval)

lemma rounding_81: "binary64 (- (750599937895083 / 1125899906842624)) = Fin (- (750599937895083 / 1125899906842624))"
  using binary64_neg [of "- (750599937895083 / 1125899906842624)" "- 1" 6004799503160664] by (simp add: rounding_eval)

lemma rounding_82: "binary64 (1 / 2) = Fin (1 / 2)"
  using binary64_pos [of "1 / 2" "- 1" 4503599627370496] by (simp add: rounding_eval)

lemma rounding_83: "binary64 15241578750190521 = Fin 15241578750190520"
  using binary64_pos [of "15241578750190521" "53" 7620789375095260] by (simp add: rounding_eval)

lemma rounding_84: "binary64 15241578750190520 = Fin 15241578750190520"
  using binary64_pos [of "15241578750190520" "53" 7620789375095260] by (simp add: rounding_eval)

lemma rounding_85: "binary64 15241579244017681 = Fin 15241579244017680"
  using binary64_pos [of "15241579244017681" "53" 7620789622008840] by (simp add: rounding_eval)

lemma rounding_86: "binary64 30483157994208200 = Fin 30483157994208200"
  using binary64_pos [of "30483157994208200" "54" 7620789498552050] by (simp add: rounding_eval)

lemma rounding_87: "binary64 15241579490931264 = Fin 15241579490931264"
  using binary64_pos [of "15241579490931264" "53" 7620789745465632] by (simp add: rounding_eval)

lemma rounding_88: "binary64 45724737485139464 = Fin 45724737485139464"
  using binary64_pos [of "45724737485139464" "55" 5715592185642433] by (simp add: rounding_eval)

lemma rounding_89: "binary64 15241579984758436 = Fin 15241579984758436"
  using binary64_pos [of "15241579984758436" "53" 7620789992379218] by (simp add: rounding_eval)

lemma rounding_90: "binary64 60966317469897900 = Fin 60966317469897904"
  using binary64_pos [of "60966317469897900" "55" 7620789683737238] by (simp add: rounding_eval)

lemma rounding_91: "binary64 (246913583 / 2) = Fin (246913583 / 2)"
  using binary64_pos [of "246913583 / 2" "26" 8285045030649856] by (simp add: rounding_eval)

lemma rounding_92: "binary64 (5 / 2) = Fin (5 / 2)"
  using binary64_pos [of "5 / 2" "1" 5629499534213120] by (simp add: rounding_eval)

lemma rounding_93: "binary64 243865269879591556 = Fin 243865269879591552"
  using binary64_pos [of "243865269879591556" "57" 7620789683737236] by (simp add: rounding_eval)

lemma rounding_94: "binary64 60966317469897888 = Fin 60966317469897888"
  using binary64_pos [of "60966317469897888" "55" 7620789683737236] by (simp add: rounding_eval)

lemma rounding_95: "binary64 (246913583 / 4) = Fin (246913583 / 4)"
  using binary64_pos [of "246913583 / 4" "25" 8285045030649856] by (simp add: rounding_eval)

lemma rounding_96: "binary64 (- (246913573 / 4)) = Fin (- (246913573 / 4))"
  using binary64_neg [of "- (246913573 / 4)" "25" 8285044695105536] by (simp add: rounding_eval)

lemma rounding_97: "binary64 15241579244017680 = Fin 15241579244017680"
  using binary64_pos [of "15241579244017680" "53" 7620789622008840] by (simp add: rounding_eval)

lemma rounding_98: "binary64 30483158734948944 = Fin 30483158734948944"
  using binary64_pos [of "30483158734948944" "54" 7620789683737236] by (simp add: rounding_eval)

lemma rounding_99: "binary64 45724738719707380 = Fin 45724738719707376"
  using binary64_pos [of "45724738719707380" "55" 5715592339963422] by (simp add: rounding_eval)

lemma rounding_100: "binary64 60966317469897896 = Fin 60966317469897896"
  using binary64_pos [of "60966317469897896" "55" 7620789683737237] by (simp add: rounding_eval)

lemma rounding_101: "binary64 10000000200000001 = Fin 10000000200000000"
  using binary64_pos [of "10000000200000001" "53" 5000000100000000] by (simp add: rounding_eval)

lemma rounding_102: "binary64 10000000200000000 = Fin 10000000200000000"
  using binary64_pos [of "10000000200000000" "53" 5000000100000000] by (simp add: rounding_eval)

lemma rounding_103: "binary64 10000000400000004 = Fin 10000000400000004"
  using binary64_pos [of "10000000400000004" "53" 5000000200000002] by (simp add: rounding_eval)

lemma rounding_104: "binary64 20000000600000004 = Fin 20000000600000004"
  using binary64_pos [of "20000000600000004" "54" 5000000150000001] by (simp add: rounding_eval)

lemma rounding_105: "binary64 10000000600000009 = Fin 10000000600000008"
  using binary64_pos [of "10000000600000009" "53" 5000000300000004] by (simp add: rounding_eval)

lemma rounding_106: "binary64 30000001200000012 = Fin 30000001200000012"
  using binary64_pos [of "30000001200000012" "54" 7500000300000003] by (simp add: rounding_eval)

lemma rounding_107: "binary64 10000000800000016 = Fin 10000000800000016"
  using binary64_pos [of "10000000800000016" "53" 5000000400000008] by (simp add: rounding_eval)

lemma rounding_108: "binary64 40000002000000028 = Fin 40000002000000032"
  using binary64_pos [of "40000002000000028" "55" 5000000250000004] by (simp add: rounding_eval)

lemma rounding_109: "binary64 (200000005 / 2) = Fin (200000005 / 2)"
  using binary64_pos [of "200000005 / 2" "26" 6710886567772160] by (simp add: rounding_eval)

lemma rounding_110: "binary64 160000008000000100 = Fin 160000008000000096"
  using binary64_pos [of "160000008000000100" "57" 5000000250000003] by (simp add: rounding_eval)

lemma rounding_111: "binary64 40000002000000024 = Fin 40000002000000024"
  using binary64_pos [of "40000002000000024" "55" 5000000250000003] by (simp add: rounding_eval)

lemma rounding_112: "binary64 (5 / 8) = Fin (5 / 8)"
  using binary64_pos [of "5 / 8" "- 1" 5629499534213120] by (simp add: rounding_eval)

lemma rounding_113: "binary64 (1000000025 / 16) = Fin (1000000025 / 16)"
  using binary64_pos [of "1000000025 / 16" "25" 8388608209715200] by (simp add: rounding_eval)

lemma rounding_114: "binary64 (- (999999985 / 16)) = Fin (- (999999985 / 16))"
  using binary64_neg [of "- (999999985 / 16)" "25" 8388607874170880] by (simp add: rounding_eval)

lemma rounding_115: "binary64 90000003600000036 = Fin 90000003600000032"
  using binary64_pos [of "90000003600000036" "56" 5625000225000002] by (simp add: rounding_eval)

lemma rounding_116: "binary64 (90000003600000032 / 3) = Fin 30000001200000012"
  using binary64_pos [of "90000003600000032 / 3" "54" 7500000300000003] by (simp add: rounding_eval)

lemma rounding_117: "binary64 (5 / 4) = Fin (5 / 4)"
  using binary64_pos [of "5 / 4" "0" 5629499534213120] by (simp add: rounding_eval)

lemma rounding_118: "binary64 (3 / 4) = Fin (3 / 4)"
  using binary64_pos [of "3 / 4" "- 1" 6755399441055744] by (simp add: rounding_eval)

lemmas roundings =
  rounding_1 rounding_2 rounding_3 rounding_4 rounding_5 rounding_6 rounding_7 rounding_8
  rounding_9 rounding_10 rounding_11 rounding_12 rounding_13 rounding_14 rounding_15
  rounding_16 rounding_17 rounding_18 rounding_19 rounding_20 rounding_21 rounding_22
  rounding_23 rounding_24 rounding_25 rounding_26 rounding_27 rounding_28 rounding_29
  rounding_30 rounding_31 rounding_32 rounding_33 rounding_34 rounding_35 rounding_36
  rounding_37 rounding_38 rounding_39 rounding_40 rounding_41 rounding_42 rounding_43
  rounding_44 rounding_45 rounding_46 rounding_47 rounding_48 rounding_49 rounding_50
  rounding_51 rounding_52 rounding_53 rounding_54 rounding_55 rounding_56 rounding_57
  rounding_58 rounding_59 rounding_60 rounding_61 rounding_62 rounding_63 rounding_64
  rounding_65 rounding_66 rounding_67 rounding_68 rounding_69 rounding_70 rounding_71
  rounding_72 rounding_73 rounding_74 rounding_75 rounding_76 rounding_77 rounding_78
  rounding_79 rounding_80 rounding_81 rounding_82 rounding_83 rounding_84 rounding_85
  rounding_86 rounding_87 rounding_88 rounding_89 rounding_90 rounding_91 rounding_92
  rounding_93 rounding_94 rounding_95 rounding_96 rounding_97 rounding_98 rounding_99
  rounding_100 rounding_101 rounding_102 rounding_103 rounding_104 rounding_105 rounding_106
  rounding_107 rounding_108 rounding_109 rounding_110 rounding_111 rounding_112 rounding_113
  rounding_114 rounding_115 rounding_116 rounding_117 rounding_118

lemmas evaluate_binary64 = parsed_def contextNumbers_def sumX_def sumY_def sumXY_def sumXX_def
  sumYY_def reduce_def ofLength_def jsSub_def Let_def strictNe_def binary64_integer roundings

lemmas evaluate_stats = calculateStats_def tableBody_def tableRow_def footerSXX_def
  footerSCP_def footerSSres_def footerSStot_def generateDataContext_def evaluate_binary64

section \<open>Double precision on the sample inputs\<close>

text \<open>
  Three x values equal to 0.1 in double precision: the computed \<open>SXX\<close> is
  \<open>-2\<^sup>-\<^sup>5\<^sup>8\<close>, not 0, so the guard \<^verbatim>\<open>sxx !== 0\<close> of the chat data context lets the
  division through and the context reports the slope 32.
\<close>

lemma context_equal_x_rounding:
  "contextNumbers binary64 [parsed (1 / 10) 1, parsed (1 / 10) 2, parsed (1 / 10) 4] =
     \<lparr>ctx_meanX = Fin (7205759403792795 / 72057594037927936),
      ctx_meanY = Fin (5254199565265579 / 2251799813685248),
      ctx_numerator = Fin (- (1 / 2251799813685248)), ctx_denominator = Fin 0,
      ctx_correlation = Fin 0, ctx_sxx = Fin (- (1 / 288230376151711744)),
      ctx_slope = Fin 32, ctx_intercept = Fin (- (121972489907951 / 140737488355328))\<rparr>"
  by (simp add: evaluate_binary64)


lemma contextNumbers_rounding:
  "contextNumbers binary64 [parsed (13 / 10) 0, parsed (13 / 10) 1, parsed (13 / 10) 2] =
     \<lparr>ctx_meanX = Fin (5854679515581645 / 4503599627370496), ctx_meanY = Fin 1,
      ctx_numerator = Fin 0, ctx_denominator = NaN, ctx_correlation = NaN,
      ctx_sxx = Fin (- (1 / 1125899906842624)), ctx_slope = Fin 0, ctx_intercept = Fin 1\<rparr>"
  by (simp add: evaluate_binary64)

section \<open>The claims\<close>

text \<open>
  C1, at the two points \<open>(2, 1)\<close> and \<open>(2, 5)\<close> in double precision: the x values are
  equal, \<open>SXX = 0\<close> and \<open>SCP = 0\<close>, and \<^verbatim>\<open>calculateStats\<close> signals nothing: it divides
  0 by 0 and returns a summary whose slope and intercept are NaN, which the calculations
  panel prints, and the data table prints NaN as the predicted value of both rows. The
  chat data context guards the same division with \<^verbatim>\<open>sxx !== 0\<close> and reports the slope 0.
\<close>

theorem equal_x_unguarded:
  "calculateStats binary64 r2 [parsed 2 1, parsed 2 5] =
     Some \<lparr>st_sxx = Fin 0, st_scp = Fin 0, st_slope = NaN, st_intercept = NaN,
           st_n = 2, st_sumX = Fin 4, st_sumY = Fin 6, st_sumXY = Fin 12,
           st_meanX = Fin 2, st_meanY = Fin 3, st_r2 = r2\<rparr>
   \<and> map row_yPredicted (tableBody binary64 [parsed 2 1, parsed 2 5]) = [NaN, NaN]
   \<and> map (toFixed 4) (map row_yPredicted (tableBody binary64 [parsed 2 1, parsed 2 5]))
        = [None, None]
   \<and> ctx_slope (contextNumbers binary64 [parsed 2 1, parsed 2 5]) = Fin 0
   \<and> ctx_intercept (contextNumbers binary64 [parsed 2 1, parsed 2 5]) = Fin 3"
  by (simp add: evaluate_stats)

text \<open>
  C2, as the source has it: on the fixture \<open>(1,2), (2,4), (3,5), (4,4), (5,5)\<close> in double
  precision the means are 3 and 4, \<open>SXX = 10\<close> and \<open>SCP = 6\<close>; the slope and the
  intercept are the doubles nearest to 0.6 and to 2.2, printed with four decimals as
  0.6000 and 2.2000; the predicted values are printed as 2.8000, 3.4000, 4.0000,
  4.6000 and 5.2000; the sums of the table footer are \<open>SXX = 10\<close>, \<open>SCP = 6\<close>,
  \<open>SSres\<close> printed as 2.4000 and \<open>SStot = 6\<close>.
\<close>

theorem fixture_values:
  "calculateStats binary64 r2 fixture =
     Some \<lparr>st_sxx = Fin 10, st_scp = Fin 6,
           st_slope = Fin (5404319552844595 / 9007199254740992),
           st_intercept = Fin (2476979795053773 / 1125899906842624),
           st_n = 5, st_sumX = Fin 15, st_sumY = Fin 20, st_sumXY = Fin 66,
           st_meanX = Fin 3, st_meanY = Fin 4, st_r2 = r2\<rparr>
   \<and> map_option (\<lambda>st. map (toFixed 4) [st_sxx st, st_scp st, st_slope st, st_intercept st])
        (calculateStats binary64 r2 fixture)
        = Some [Some (False, 100000), Some (False, 60000), Some (False, 6000),
                Some (False, 22000)]
   \<and> map row_yPredicted (tableBody binary64 fixture)
        = [Fin (6305039478318695 / 2251799813685248),
           Fin (1914029841632461 / 562949953421312),
           Fin 4,
           Fin (2589569785738035 / 562949953421312),
           Fin (5854679515581645 / 1125899906842624)]
   \<and> map (toFixed 4) (map row_yPredicted (tableBody binary64 fixture))
        = [Some (False, 28000), Some (False, 34000), Some (False, 40000),
           Some (False, 46000), Some (False, 52000)]
   \<and> footerSXX binary64 fixture = Fin 10 \<and> footerSCP binary64 fixture = Fin 6
   \<and> footerSSres binary64 fixture = Fin (2702159776422297 / 1125899906842624)
   \<and> toFixed 4 (footerSSres binary64 fixture) = Some (False, 24000)
   \<and> footerSStot binary64 fixture = Fin 6"
  by (simp add: fixture_def evaluate_stats)

text \<open>
  C2, as the claim states it, fails: on the fixture the source computes \<open>SCP = 6\<close>, not 9,
  and with four decimals neither the slope 0.9000 nor the intercept 1.3000 nor the
  predicted values 2.2000, 3.1000, 4.0000, 4.9000, 5.8000.
\<close>

theorem fixture_counterexample:
  "map_option st_scp
      (calculateStats binary64 (Fin 0)
         [parsed 1 2, parsed 2 4, parsed 3 5, parsed 4 4, parsed 5 5]) = Some (Fin 6)
   \<and> map_option (toFixed 4) (map_option st_scp
      (calculateStats binary64 (Fin 0)
         [parsed 1 2, parsed 2 4, parsed 3 5, parsed 4 4, parsed 5 5]))
        \<noteq> Some (Some (False, 90000))
   \<and> map_option (toFixed 4) (map_option st_slope
      (calculateStats binary64 (Fin 0)
         [parsed 1 2, parsed 2 4, parsed 3 5, parsed 4 4, parsed 5 5]))
        \<noteq> Some (Some (False, 9000))
   \<and> map_option (toFixed 4) (map_option st_intercept
      (calculateStats binary64 (Fin 0)
         [parsed 1 2, parsed 2 4, parsed 3 5, parsed 4 4, parsed 5 5]))
        \<noteq> Some (Some (False, 13000))
   \<and> map (toFixed 4) (map row_yPredicted
      (tableBody binary64 [parsed 1 2, parsed 2 4, parsed 3 5, parsed 4 4, parsed 5 5]))
        \<noteq> [Some (False, 22000), Some (False, 31000), Some (False, 40000),
            Some (False, 49000), Some (False, 58000)]"
  by (simp add: evaluate_stats)

text \<open>
  C4, at a dataset of one point: \<^verbatim>\<open>calculateStats\<close> returns \<^verbatim>\<open>null\<close> for the empty
  dataset and for the single point \<open>(1, 1)\<close>, but the data table, which is rendered as soon
  as there is one point, divides 0 by 0: the predicted value and the residual of its row
  and the sum \<open>SSres\<close> of its footer are NaN.
\<close>

theorem one_point_table:
  "calculateStats binary64 r2 [] = None
   \<and> calculateStats binary64 r2 [parsed 1 1] = None
   \<and> map row_yPredicted (tableBody binary64 [parsed 1 1]) = [NaN]
   \<and> map row_residual (tableBody binary64 [parsed 1 1]) = [NaN]
   \<and> footerSSres binary64 [parsed 1 1] = NaN"
  by (simp add: evaluate_stats)




text \<open>
  C6, as the source has it: for every dataset of at least one point the correlation
  coefficient of the chat data context is
  \<open>(n sumXY - sumX sumY) / sqrt ((n sumXX - sumX\<^sup>2) (n sumYY - sumY\<^sup>2))\<close>, each operation
  being one of the program's arithmetic, when the denominator so computed is not 0 (a NaN
  denominator is not 0, and then the coefficient is NaN), and it is the number 0 when the
  computed denominator is 0; this number is what the context string prints. This holds for
  every rounding, so for double arithmetic.
\<close>

theorem correlation_formula:
  assumes "1 \<le> length ps"
  shows "ctx_numerator (contextNumbers rd ps) = specNumerator rd ps
       \<and> ctx_denominator (contextNumbers rd ps) = specDenominator rd ps
       \<and> ctx_correlation (contextNumbers rd ps) =
           (if strictNe (specDenominator rd ps) (Fin 0)
            then jsDiv rd (specNumerator rd ps) (specDenominator rd ps) else Fin 0)
       \<and> Fixed (ctx_correlation (contextNumbers rd ps)) 3 \<in> set (generateDataContext rd ps)"
proof -
  have "length ps \<noteq> 0" using assms by auto
  then show ?thesis
    by (simp add: contextNumbers_spec generateDataContext_def Let_def)
qed

theorem correlation_formula_witness:
  "1 \<le> length diagonal
   \<and> ctx_numerator (contextNumbers binary64 diagonal) = Fin 1
   \<and> ctx_denominator (contextNumbers binary64 diagonal) = Fin 1
   \<and> ctx_correlation (contextNumbers binary64 diagonal) = Fin 1
   \<and> Fixed (Fin 1) 3 \<in> set (generateDataContext binary64 diagonal)"
proof -
  have n: "1 \<le> length diagonal" by (simp add: diagonal_def)
  have v: "specNumerator binary64 diagonal = Fin 1" "specDenominator binary64 diagonal = Fin 1"
    by (simp_all add: specNumerator_def specDenominator_def leftSum_def diagonal_def parsed_def
          ofLength_def jsSub_def binary64_integer)
  from correlation_formula [OF n, of binary64] n v show ?thesis
    by (auto simp add: strictNe_def binary64_integer)
qed

text \<open>
  C6, as the claim states it, fails on the single point \<open>(1, 1)\<close>: the denominator is 0,
  and the correlation is not signalled as undefined, it is the number 0, which the context
  prints as 0.000. It also fails in double precision on the three points
  \<open>(100000001, 1)\<close>, \<open>(100000002, 2)\<close> and \<open>(100000003, 3)\<close>: the argument of the
  square root is 36 and the denominator 6, but the computed denominator is 0 and the
  context reports the correlation 0 for points that lie on a line.
\<close>

theorem correlation_counterexample:
  "ctx_denominator (contextNumbers binary64 [parsed 1 1]) = Fin 0
   \<and> ctx_correlation (contextNumbers binary64 [parsed 1 1]) = Fin 0
   \<and> generateDataContext binary64 [parsed 1 1] =
       [Lit ''Current dataset: '', Count 1,
        Lit '' data points. Mean X: '', Fixed (Fin 1) 2,
        Lit '', Mean Y: '', Fixed (Fin 1) 2,
        Lit ''. Linear regression: y = '', Fixed (Fin 0) 3,
        Lit ''x + '', Fixed (Fin 1) 3,
        Lit ''. Correlation coefficient: '', Fixed (Fin 0) 3,
        Lit ''.'']
   \<and> toFixed 3 (Fin 0) = Some (False, 0)
   \<and> realRadicand [parsed 100000001 1, parsed 100000002 2, parsed 100000003 3] = 36
   \<and> ctx_denominator (contextNumbers binary64
        [parsed 100000001 1, parsed 100000002 2, parsed 100000003 3]) = Fin 0
   \<and> ctx_correlation (contextNumbers binary64
        [parsed 100000001 1, parsed 100000002 2, parsed 100000003 3]) = Fin 0"
  by (simp add: evaluate_stats realRadicand_def lsum_def rx_def ry_def)







text \<open>
  C9: when \<^verbatim>\<open>parseFloat\<close> of the x field or of the y field is NaN, neither
  \<^verbatim>\<open>handleSubmit\<close> nor \<^verbatim>\<open>handleYKeyDown\<close> calls \<^verbatim>\<open>onDataAdd\<close>, and the fields keep
  their text; so, whatever the user does, no point of the dataset has a NaN coordinate.
\<close>

theorem nan_never_added:
  "(isNaN (parseFloat (field_x st)) \<or> isNaN (parseFloat (field_y st)) \<longrightarrow>
      handleSubmit parseFloat st = (None, st) \<and> handleYKeyDown parseFloat key st = (None, st))
   \<and> (\<forall>p \<in> set (dataPoints (run parseFloat evs)). \<not> isNaN (pt_x p) \<and> \<not> isNaN (pt_y p))"
proof
  show "isNaN (parseFloat (field_x st)) \<or> isNaN (parseFloat (field_y st)) \<longrightarrow>
      handleSubmit parseFloat st = (None, st) \<and> handleYKeyDown parseFloat key st = (None, st)"
    by (auto simp add: handleSubmit_def handleYKeyDown_def Let_def)
  show "\<forall>p \<in> set (dataPoints (run parseFloat evs)). \<not> isNaN (pt_x p) \<and> \<not> isNaN (pt_y p)"
    unfolding run_def by (rule foldl_step_no_nan) (simp add: initialApp_def)
qed

theorem nan_never_added_witness:
  "isNaN (sampleParse (field_x \<lparr>field_x = ''abc'', field_y = ''4''\<rparr>))
   \<and> handleSubmit sampleParse \<lparr>field_x = ''abc'', field_y = ''4''\<rparr>
        = (None, \<lparr>field_x = ''abc'', field_y = ''4''\<rparr>)
   \<and> handleYKeyDown sampleParse ''Enter'' \<lparr>field_x = ''abc'', field_y = ''4''\<rparr>
        = (None, \<lparr>field_x = ''abc'', field_y = ''4''\<rparr>)
   \<and> dataPoints (run sampleParse sampleEvents) = [point 3 4]
   \<and> list_all finitePoint (dataPoints (run sampleParse sampleEvents))"
proof -
  have h: "isNaN (sampleParse (field_x \<lparr>field_x = ''abc'', field_y = ''4''\<rparr>))"
    by (simp add: sampleParse_def isNaN_def)
  have d: "dataPoints (run sampleParse sampleEvents) = [point 3 4]"
    by (simp add: run_def sampleEvents_def initialApp_def emptyForm_def onDataAdd_def
          handleSubmit_def handleYKeyDown_def handleDataAdd_def sampleParse_def isNaN_def
          point_def Let_def)
  from nan_never_added [of sampleParse "\<lparr>field_x = ''abc'', field_y = ''4''\<rparr>" "''Enter''"
      sampleEvents] h d
  show ?thesis by (simp add: point_def finitePoint_def)
qed

text \<open>
  C10, at the three points \<open>(1.3, 0)\<close>, \<open>(1.3, 1)\<close> and \<open>(1.3, 2)\<close> in double
  precision: \<open>n sumXX\<close> rounds to a double below \<open>sumX\<^sup>2\<close>, their difference is
  \<open>-2\<^sup>-\<^sup>4\<^sup>9\<close>, the argument of the square root is negative and the denominator is
  NaN. NaN passes the guard \<^verbatim>\<open>denominator !== 0\<close>, so the context string prints NaN as
  the correlation coefficient.
\<close>

theorem context_prints_nan:
  "generateDataContext binary64 [parsed (13 / 10) 0, parsed (13 / 10) 1, parsed (13 / 10) 2] =
     [Lit ''Current dataset: '', Count 3,
      Lit '' data points. Mean X: '', Fixed (Fin (5854679515581645 / 4503599627370496)) 2,
      Lit '', Mean Y: '', Fixed (Fin 1) 2,
      Lit ''. Linear regression: y = '', Fixed (Fin 0) 3,
      Lit ''x + '', Fixed (Fin 1) 3,
      Lit ''. Correlation coefficient: '', Fixed NaN 3,
      Lit ''.'']"
  by (simp add: generateDataContext_def contextNumbers_rounding Let_def)

end
